theory Spec2Isabelle
  imports Main
begin

section \<open>Data model\<close>

text \<open>
  Identifiers are the strings the JavaScript code compares: the user id taken from the
  verified token (\<open>decoded.id\<close>), the connection id \<open>socket.id\<close> generated by
  socket.io, and the hexadecimal form of a document id.
\<close>

type_synonym user_id = string
type_synonym socket_id = string
type_synonym task_id = string

text \<open>
  A stored notification (the Notification schema): \<open>user\<close>, \<open>type\<close>, \<open>taskId\<close>,
  \<open>message\<close>, \<open>read\<close> (default \<open>false\<close>) and the document's \<open>_id\<close>. The generation
  of \<open>_id\<close> is a counter of the store; the creation time is left out.
\<close>

record notification =
  n_id :: nat
  n_user :: user_id
  n_type :: string
  n_taskId :: task_id
  n_message :: string
  n_read :: bool

text \<open>The object handed to \<open>Notification.create\<close>; \<open>taskId\<close> may be \<open>undefined\<close>.\<close>

record notif_doc =
  d_user :: user_id
  d_type :: string
  d_taskId :: "task_id option"
  d_message :: string

datatype db_error = ValidationError | WriteError

text \<open>
  The \<open>data\<close> object a client sends with \<open>task:update\<close>, \<open>task:assign\<close> or
  \<open>comment:new\<close>: \<open>assignees\<close> is an array of ids, \<open>assigneeId\<close> and
  \<open>taskCreator\<close> are ids, \<open>taskId\<close> may be missing, and \<open>task_title\<close> is
  \<open>data.task?.title\<close>.
\<close>

record event_data =
  taskId :: "task_id option"
  assignees :: "user_id list"
  assigneeId :: user_id
  taskCreator :: user_id
  task_title :: "string option"

text \<open>What an emit carries: one constructor for each place of the source that emits.\<close>

datatype payload =
    ClientData event_data
  | TaskAssign task_id user_id
  | TaskUpdate task_id "user_id list"
  | TaskDeleted task_id "user_id list"
  | CommentNew task_id user_id "user_id list" string user_id
  | UserDisconnect user_id

datatype target = ToRoom string | ToAll

record push =
  p_target :: target
  p_event :: string
  p_payload :: payload

text \<open>
  The state of the server process: the module-level map \<open>connectedUsers\<close>, the open
  sockets with their \<open>socket.userId\<close>, the room memberships kept by socket.io, the
  emits made so far, the notification collection, and what \<open>console.error\<close> has printed.
\<close>

record server =
  connectedUsers :: "user_id \<rightharpoonup> socket_id"
  sockets :: "socket_id \<rightharpoonup> user_id"
  rooms :: "string \<Rightarrow> socket_id set"
  emitted :: "push list"
  notifications :: "notification list"
  next_oid :: nat
  errlog :: "db_error list"

record socket =
  sock_id :: socket_id
  userId :: user_id

definition init :: server where
  "init = \<lparr>connectedUsers = Map.empty, sockets = Map.empty, rooms = (\<lambda>_. {}),
           emitted = [], notifications = [], next_oid = 0, errlog = []\<rparr>"

section \<open>socket.js\<close>

subsection \<open>Emitting\<close>

text \<open>\<open>io.to(room).emit(ev, data)\<close> and \<open>io.emit(ev, data)\<close>.\<close>

definition emit_to :: "string \<Rightarrow> string \<Rightarrow> payload \<Rightarrow> server \<Rightarrow> server" where
  "emit_to room ev data st =
     st\<lparr>emitted := emitted st @ [\<lparr>p_target = ToRoom room, p_event = ev, p_payload = data\<rparr>]\<rparr>"

definition emit_all :: "string \<Rightarrow> payload \<Rightarrow> server \<Rightarrow> server" where
  "emit_all ev data st =
     st\<lparr>emitted := emitted st @ [\<lparr>p_target = ToAll, p_event = ev, p_payload = data\<rparr>]\<rparr>"

text \<open>The connections an emit reaches: the members of the room, or every open socket.\<close>

definition receivers :: "server \<Rightarrow> push \<Rightarrow> socket_id set" where
  "receivers st p = (case p_target p of ToRoom r \<Rightarrow> rooms st r | ToAll \<Rightarrow> dom (sockets st))"

subsection \<open>Authentication middleware and connection handler\<close>

text \<open>
  \<open>io.use\<close>: the token of the handshake is absent (\<open>None\<close>) or empty, both falsy, or
  \<open>jwt.verify\<close> throws (\<open>verify t = None\<close>): \<open>next(new Error('Authentication error'))\<close>.
  Otherwise \<open>socket.userId = decoded.id\<close>. \<open>jwt.verify\<close> with the server's secret is
  the parameter \<open>verify\<close>.
\<close>

definition io_use :: "(string \<Rightarrow> user_id option) \<Rightarrow> string option \<Rightarrow> string + user_id" where
  "io_use verify token =
     (case token of
        None \<Rightarrow> Inl ''Authentication error''
      | Some t \<Rightarrow>
          if t = [] then Inl ''Authentication error''
          else (case verify t of
                  None \<Rightarrow> Inl ''Authentication error''
                | Some uid \<Rightarrow> Inr uid))"

definition room_of :: "user_id \<Rightarrow> string" where
  "room_of uid = ''user:'' @ uid"

definition join :: "string \<Rightarrow> socket_id \<Rightarrow> server \<Rightarrow> server" where
  "join room sid st = st\<lparr>rooms := (rooms st)(room := insert sid (rooms st room))\<rparr>"

text \<open>
  The \<open>connection\<close> handler: \<open>connectedUsers.set(socket.userId, socket.id)\<close> and
  \<open>socket.join(`user:${socket.userId}`)\<close>. (The second \<open>connection\<close> handler, in
  server.js, only prints.)
\<close>

definition on_connection :: "socket \<Rightarrow> server \<Rightarrow> server" where
  "on_connection socket st =
     join (room_of (userId socket)) (sock_id socket)
       (st\<lparr>connectedUsers := (connectedUsers st)(userId socket \<mapsto> sock_id socket)\<rparr>)"

text \<open>
  What socket.io does when a handshake has passed the middleware: the socket is open and
  is a member of the room named by its own id.
\<close>

definition open_socket :: "socket \<Rightarrow> server \<Rightarrow> server" where
  "open_socket socket st =
     join (sock_id socket) (sock_id socket)
       (st\<lparr>sockets := (sockets st)(sock_id socket \<mapsto> userId socket)\<rparr>)"

text \<open>The \<open>connection\<close> event of an accepted socket.\<close>

definition connection :: "socket \<Rightarrow> server \<Rightarrow> server" where
  "connection socket st = on_connection socket (open_socket socket st)"

datatype conn_result = Rejected string | Registered socket

text \<open>
  A connection attempt: the middleware, and only when it calls \<open>next()\<close> without an
  error the \<open>connection\<close> event; with an error socket.io refuses the handshake and
  closes the transport. \<open>sid\<close> is the id socket.io generates.
\<close>

definition connect ::
  "(string \<Rightarrow> user_id option) \<Rightarrow> string option \<Rightarrow> socket_id \<Rightarrow> server \<Rightarrow> conn_result \<times> server" where
  "connect verify token sid st =
     (case io_use verify token of
        Inl err \<Rightarrow> (Rejected err, st)
      | Inr uid \<Rightarrow>
          (let socket = \<lparr>sock_id = sid, userId = uid\<rparr>
           in (Registered socket, connection socket st)))"

subsection \<open>Disconnection\<close>

text \<open>
  socket.io takes a closing socket out of every room and out of the open sockets before
  the \<open>disconnect\<close> handler runs; the handler is
  \<open>connectedUsers.delete(socket.userId)\<close> and \<open>io.emit('user:disconnect', ...)\<close>.
\<close>

definition close_socket :: "socket_id \<Rightarrow> server \<Rightarrow> server" where
  "close_socket sid st =
     st\<lparr>sockets := (sockets st)(sid := None), rooms := (\<lambda>r. rooms st r - {sid})\<rparr>"

definition on_disconnect :: "socket \<Rightarrow> server \<Rightarrow> server" where
  "on_disconnect socket st =
     emit_all ''user:disconnect'' (UserDisconnect (userId socket))
       (st\<lparr>connectedUsers := (connectedUsers st)(userId socket := None)\<rparr>)"

definition disconnect :: "socket_id \<Rightarrow> server \<Rightarrow> server" where
  "disconnect sid st =
     (case sockets st sid of
        None \<Rightarrow> st
      | Some uid \<Rightarrow> on_disconnect \<lparr>sock_id = sid, userId = uid\<rparr> (close_socket sid st))"

text \<open>\<open>connectedUsers.has(id)\<close>, and the connection ids the registry holds for an identity.\<close>

definition isOnline :: "server \<Rightarrow> user_id \<Rightarrow> bool" where
  "isOnline st uid = (connectedUsers st uid \<noteq> None)"

definition connectionsFor :: "server \<Rightarrow> user_id \<Rightarrow> socket_id list" where
  "connectionsFor st uid = (case connectedUsers st uid of None \<Rightarrow> [] | Some sid \<Rightarrow> [sid])"

section \<open>notificationController.js\<close>

text \<open>
  \<open>Notification.create\<close>: the schema requires \<open>taskId\<close> and \<open>message\<close> and a \<open>type\<close>
  among the three of its enumeration, and the write itself can fail (a value that does
  not cast, the database unreachable): that part of the store is the parameter
  \<open>accepts\<close>. A failure is thrown, here returned as \<open>Inl\<close>.
\<close>

definition type_enum :: "string list" where
  "type_enum = [''task:assign'', ''task:update'', ''comment:new'']"

definition Notification_create ::
  "(notif_doc \<Rightarrow> bool) \<Rightarrow> notif_doc \<Rightarrow> server \<Rightarrow> db_error + (notification \<times> server)" where
  "Notification_create accepts doc st =
     (case d_taskId doc of
        None \<Rightarrow> Inl ValidationError
      | Some tid \<Rightarrow>
          if d_type doc \<notin> set type_enum \<or> d_message doc = [] then Inl ValidationError
          else if \<not> accepts doc then Inl WriteError
          else
            (let n = \<lparr>n_id = next_oid st, n_user = d_user doc, n_type = d_type doc,
                      n_taskId = tid, n_message = d_message doc, n_read = False\<rparr>
             in Inr (n, st\<lparr>notifications := notifications st @ [n],
                           next_oid := Suc (next_oid st)\<rparr>)))"

text \<open>
  \<open>createNotification\<close>: the \<open>try\<close> returns the created notification, the \<open>catch\<close>
  prints the error and returns \<open>null\<close>.
\<close>

definition createNotification ::
  "(notif_doc \<Rightarrow> bool) \<Rightarrow> user_id \<Rightarrow> string \<Rightarrow> task_id option \<Rightarrow> string \<Rightarrow> server
     \<Rightarrow> notification option \<times> server" where
  "createNotification accepts uid type tid message st =
     (case Notification_create accepts
             \<lparr>d_user = uid, d_type = type, d_taskId = tid, d_message = message\<rparr> st of
        Inr (n, st') \<Rightarrow> (Some n, st')
      | Inl err \<Rightarrow> (None, st\<lparr>errlog := errlog st @ [err]\<rparr>))"

text \<open>
  \<open>markAsRead\<close>: 400 when \<open>notificationIds\<close> is absent or empty; otherwise
  \<open>updateMany({_id: {$in: notificationIds}, user: req.user._id}, {read: true})\<close>;
  500 when the store throws (\<open>db_ok\<close> false). The result is the status and the
  collection.
\<close>

definition markAsRead ::
  "bool \<Rightarrow> user_id \<Rightarrow> nat list option \<Rightarrow> notification list \<Rightarrow> nat \<times> notification list" where
  "markAsRead db_ok req_user notificationIds ns =
     (case notificationIds of
        None \<Rightarrow> (400, ns)
      | Some ids \<Rightarrow>
          if ids = [] then (400, ns)
          else if \<not> db_ok then (500, ns)
          else (200, map (\<lambda>n. if n_id n \<in> set ids \<and> n_user n = req_user
                               then n\<lparr>n_read := True\<rparr> else n) ns))"

text \<open>\<open>deleteReadNotifications\<close>: \<open>deleteMany({user: req.user._id, read: true})\<close>.\<close>

definition deleteReadNotifications ::
  "bool \<Rightarrow> user_id \<Rightarrow> notification list \<Rightarrow> nat \<times> notification list" where
  "deleteReadNotifications db_ok req_user ns =
     (if \<not> db_ok then (500, ns)
      else (200, filter (\<lambda>n. \<not> (n_user n = req_user \<and> n_read n)) ns))"

section \<open>socket.js: the event handlers\<close>

text \<open>\<open>data.task?.title || 'Unknown'\<close>, between double quotes in the message.\<close>

definition title_or_unknown :: "string option \<Rightarrow> string" where
  "title_or_unknown t = (case t of None \<Rightarrow> ''Unknown'' | Some s \<Rightarrow> if s = [] then ''Unknown'' else s)"

definition quoted :: "string \<Rightarrow> string" where
  "quoted s = CHR 0x22 # s @ [CHR 0x22]"

definition update_message :: "event_data \<Rightarrow> string" where
  "update_message data = ''Task '' @ quoted (title_or_unknown (task_title data)) @ '' has been updated''"

definition assign_message :: "event_data \<Rightarrow> string" where
  "assign_message data =
     ''You have been assigned to task '' @ quoted (title_or_unknown (task_title data))"

definition comment_message :: "event_data \<Rightarrow> string" where
  "comment_message data = ''New comment on task '' @ quoted (title_or_unknown (task_title data))"

text \<open>
  The body shared by the three handlers: if \<open>connectedUsers.has(id)\<close> then
  \<open>io.to(connectedUsers.get(id)).emit(ev, data)\<close>, else \<open>await createNotification(...)\<close>.
  The \<open>await\<close> is modelled as a call: no other event is taken while a handler runs.
\<close>

definition push_or_store ::
  "(notif_doc \<Rightarrow> bool) \<Rightarrow> string \<Rightarrow> string \<Rightarrow> event_data \<Rightarrow> user_id \<Rightarrow> server \<Rightarrow> server" where
  "push_or_store accepts ev message data uid st =
     (case connectedUsers st uid of
        Some sid \<Rightarrow> emit_to sid ev (ClientData data) st
      | None \<Rightarrow> snd (createNotification accepts uid ev (taskId data) message st))"

text \<open>\<open>socket.on('task:update')\<close>: the loop over \<open>data.assignees\<close>.\<close>

fun task_update_loop ::
  "(notif_doc \<Rightarrow> bool) \<Rightarrow> event_data \<Rightarrow> user_id list \<Rightarrow> server \<Rightarrow> server" where
  "task_update_loop accepts data [] st = st"
| "task_update_loop accepts data (uid # rest) st =
     task_update_loop accepts data rest
       (push_or_store accepts ''task:update'' (update_message data) data uid st)"

definition on_task_update :: "(notif_doc \<Rightarrow> bool) \<Rightarrow> socket \<Rightarrow> event_data \<Rightarrow> server \<Rightarrow> server" where
  "on_task_update accepts socket data st = task_update_loop accepts data (assignees data) st"

text \<open>\<open>socket.on('task:assign')\<close>: the single \<open>data.assigneeId\<close>.\<close>

definition on_task_assign :: "(notif_doc \<Rightarrow> bool) \<Rightarrow> socket \<Rightarrow> event_data \<Rightarrow> server \<Rightarrow> server" where
  "on_task_assign accepts socket data st =
     push_or_store accepts ''task:assign'' (assign_message data) data (assigneeId data) st"

text \<open>
  \<open>socket.on('comment:new')\<close>: the loop over \<open>[data.taskCreator, ...data.assignees]\<close>,
  with \<open>continue\<close> when the id is \<open>socket.userId\<close>.
\<close>

fun comment_new_loop ::
  "(notif_doc \<Rightarrow> bool) \<Rightarrow> socket \<Rightarrow> event_data \<Rightarrow> user_id list \<Rightarrow> server \<Rightarrow> server" where
  "comment_new_loop accepts socket data [] st = st"
| "comment_new_loop accepts socket data (uid # rest) st =
     comment_new_loop accepts socket data rest
       (if uid = userId socket then st
        else push_or_store accepts ''comment:new'' (comment_message data) data uid st)"

definition on_comment_new :: "(notif_doc \<Rightarrow> bool) \<Rightarrow> socket \<Rightarrow> event_data \<Rightarrow> server \<Rightarrow> server" where
  "on_comment_new accepts socket data st =
     (let usersToNotify = taskCreator data # assignees data
      in comment_new_loop accepts socket data usersToNotify st)"

section \<open>taskController.js\<close>

text \<open>
  The ids a controller puts into a JavaScript \<open>Set\<close>: a string of the request body, or
  an \<open>ObjectId\<close> object (\<open>req.user._id\<close>, \<open>task.createdBy\<close>). A \<open>Set\<close> compares
  with SameValueZero, so a string never equals an object; \<open>id_str\<close> is \<open>toString()\<close>,
  which is also the value the schema casts to. \<open>populate\<close> is taken to find every
  user an id names, so that it leaves the ids of a task as they are.
\<close>

datatype js_id = IdStr string | IdObj string

fun id_str :: "js_id \<Rightarrow> string" where
  "id_str (IdStr s) = s"
| "id_str (IdObj s) = s"

text \<open>\<open>[...new Set(xs)]\<close>: a \<open>Set\<close> keeps the first occurrence, in insertion order.\<close>

definition set_add :: "'a list \<Rightarrow> 'a \<Rightarrow> 'a list" where
  "set_add s x = (if x \<in> set s then s else s @ [x])"

definition spread_new_Set :: "'a list \<Rightarrow> 'a list" where
  "spread_new_Set xs = foldl set_add [] xs"

text \<open>\<open>`${x}`\<close> for a value that may be \<open>undefined\<close>.\<close>

definition js_str :: "string option \<Rightarrow> string" where
  "js_str x = (case x of None \<Rightarrow> ''undefined'' | Some s \<Rightarrow> s)"

record task_doc =
  t_id :: task_id
  t_title :: "string option"
  t_description :: "string option"
  t_status :: "string option"
  t_priority :: "string option"
  t_dueDate :: "string option"
  t_assignees :: "user_id list"
  t_createdBy :: user_id
  t_comments :: "(string \<times> user_id) list"

text \<open>
  models/Task.js is not among the sources. What the controllers need of it is taken as
  a parameter: which documents pass its validation and casting, and whether it declares
  \<open>createdBy\<close> immutable (Mongoose then ignores an update of that path; the default
  is that it does not).
\<close>

record task_model =
  validates :: "task_doc \<Rightarrow> bool"
  immutable_createdBy :: bool

record create_body =
  b_title :: "string option"
  b_description :: "string option"
  b_priority :: "string option"
  b_dueDate :: "string option"
  b_assignees :: "string list option"

record update_body =
  u_title :: "string option"
  u_description :: "string option"
  u_status :: "string option"
  u_priority :: "string option"
  u_dueDate :: "string option"
  u_assignees :: "string list option"
  u_createdBy :: "string option"

record app =
  io :: server
  task_coll :: "task_doc list"

text \<open>
  The loop each controller ends with (\<open>// Store notifications for offline users\<close>):
  for every id of the list whose string differs from \<open>req.user._id.toString()\<close>,
  \<open>await createNotification(id, type, task._id, message)\<close>.
\<close>

fun store_loop ::
  "(notif_doc \<Rightarrow> bool) \<Rightarrow> user_id \<Rightarrow> string \<Rightarrow> task_id \<Rightarrow> string \<Rightarrow> user_id list \<Rightarrow> server \<Rightarrow> server" where
  "store_loop accepts req_user type tid message [] st = st"
| "store_loop accepts req_user type tid message (uid # rest) st =
     store_loop accepts req_user type tid message rest
       (if uid \<noteq> req_user then snd (createNotification accepts uid type (Some tid) message st)
        else st)"

text \<open>
  \<open>createTask\<close>. \<open>new_id\<close> is the \<open>_id\<close> that \<open>Task.create\<close> generates. The result
  is the HTTP status and the state.
\<close>

definition createTask ::
  "task_model \<Rightarrow> (notif_doc \<Rightarrow> bool) \<Rightarrow> task_id \<Rightarrow> user_id \<Rightarrow> create_body \<Rightarrow> app \<Rightarrow> nat \<times> app" where
  "createTask model accepts new_id req_user body st =
     (case b_assignees body of
        None \<Rightarrow> (400, st)
      | Some as \<Rightarrow>
          if as = [] then (400, st)
          else
            (let allAssignees = spread_new_Set (map IdStr as @ [IdObj req_user]);
                 t = \<lparr>t_id = new_id, t_title = b_title body, t_description = b_description body,
                      t_status = None, t_priority = b_priority body, t_dueDate = b_dueDate body,
                      t_assignees = map id_str allAssignees, t_createdBy = req_user,
                      t_comments = []\<rparr>
             in if \<not> validates model t then (400, st)
                else
                  (201, st\<lparr>task_coll := task_coll st @ [t],
                          io := store_loop accepts req_user ''task:assign'' new_id
                                  (''You have been assigned to task '' @ quoted (js_str (t_title t))) as
                                  (emit_all ''task:assign'' (TaskAssign new_id req_user) (io st))\<rparr>)))"

text \<open>
  \<open>Task.findByIdAndUpdate(id, req.body, ...)\<close>: every path the body names is set.
\<close>

definition apply_update :: "task_model \<Rightarrow> update_body \<Rightarrow> task_doc \<Rightarrow> task_doc" where
  "apply_update model body t =
     t\<lparr>t_title := (case u_title body of None \<Rightarrow> t_title t | Some x \<Rightarrow> Some x),
       t_description := (case u_description body of None \<Rightarrow> t_description t | Some x \<Rightarrow> Some x),
       t_status := (case u_status body of None \<Rightarrow> t_status t | Some x \<Rightarrow> Some x),
       t_priority := (case u_priority body of None \<Rightarrow> t_priority t | Some x \<Rightarrow> Some x),
       t_dueDate := (case u_dueDate body of None \<Rightarrow> t_dueDate t | Some x \<Rightarrow> Some x),
       t_assignees := (case u_assignees body of None \<Rightarrow> t_assignees t | Some as \<Rightarrow> as),
       t_createdBy := (case u_createdBy body of
                         None \<Rightarrow> t_createdBy t
                       | Some c \<Rightarrow> if immutable_createdBy model then t_createdBy t else c)\<rparr>"

fun replace_task :: "task_id \<Rightarrow> task_doc \<Rightarrow> task_doc list \<Rightarrow> task_doc list" where
  "replace_task tid t' [] = []"
| "replace_task tid t' (t # ts) = (if t_id t = tid then t' # ts else t # replace_task tid t' ts)"

definition findById :: "task_id \<Rightarrow> task_doc list \<Rightarrow> task_doc option" where
  "findById tid ts = find (\<lambda>t. t_id t = tid) ts"

definition updateTask ::
  "task_model \<Rightarrow> (notif_doc \<Rightarrow> bool) \<Rightarrow> user_id \<Rightarrow> task_id \<Rightarrow> update_body \<Rightarrow> app \<Rightarrow> nat \<times> app" where
  "updateTask model accepts req_user tid body st =
     (case findById tid (task_coll st) of
        None \<Rightarrow> (404, st)
      | Some t \<Rightarrow>
          if t_createdBy t \<noteq> req_user \<and> req_user \<notin> set (t_assignees t) then (403, st)
          else
            (let body' = (case u_assignees body of
                            None \<Rightarrow> body
                          | Some as \<Rightarrow>
                              body\<lparr>u_assignees :=
                                Some (map id_str (spread_new_Set (map IdStr as @ [IdObj (t_createdBy t)])))\<rparr>);
                 updatedTask = apply_update model body' t
             in if \<not> validates model updatedTask then (400, st)
                else
                  (200, st\<lparr>task_coll := replace_task tid updatedTask (task_coll st),
                          io := store_loop accepts req_user ''task:update'' tid
                                  (''Task '' @ quoted (js_str (t_title updatedTask)) @ '' has been updated'')
                                  (t_assignees updatedTask)
                                  (emit_all ''task:update'' (TaskUpdate tid (t_assignees updatedTask))
                                     (io st))\<rparr>)))"

fun remove_task :: "task_id \<Rightarrow> task_doc list \<Rightarrow> task_doc list" where
  "remove_task tid [] = []"
| "remove_task tid (t # ts) = (if t_id t = tid then ts else t # remove_task tid ts)"

text \<open>\<open>deleteTask\<close>; \<open>db_ok\<close> false is \<open>findByIdAndDelete\<close> throwing.\<close>

definition deleteTask ::
  "bool \<Rightarrow> (notif_doc \<Rightarrow> bool) \<Rightarrow> user_id \<Rightarrow> task_id \<Rightarrow> app \<Rightarrow> nat \<times> app" where
  "deleteTask db_ok accepts req_user tid st =
     (case findById tid (task_coll st) of
        None \<Rightarrow> (404, st)
      | Some t \<Rightarrow>
          if t_createdBy t \<noteq> req_user then (403, st)
          else if \<not> db_ok then (500, st)
          else
            (200, st\<lparr>task_coll := remove_task tid (task_coll st),
                    io := store_loop accepts req_user ''task:update'' tid
                            (''Task '' @ quoted (js_str (t_title t)) @ '' has been deleted'')
                            (t_assignees t)
                            (emit_all ''task:update'' (TaskDeleted tid (t_assignees t)) (io st))\<rparr>))"

text \<open>
  \<open>addComment\<close>: after the save and the broadcast, a notification for the task's creator
  unless the creator comments, then the loop over the assignees.
\<close>

definition addComment ::
  "task_model \<Rightarrow> (notif_doc \<Rightarrow> bool) \<Rightarrow> user_id \<Rightarrow> task_id \<Rightarrow> string \<Rightarrow> app \<Rightarrow> nat \<times> app" where
  "addComment model accepts req_user tid text st =
     (case findById tid (task_coll st) of
        None \<Rightarrow> (404, st)
      | Some t \<Rightarrow>
          if t_createdBy t \<noteq> req_user \<and> req_user \<notin> set (t_assignees t) then (403, st)
          else
            (let t' = t\<lparr>t_comments := t_comments t @ [(text, req_user)]\<rparr>
             in if \<not> validates model t' then (400, st)
                else
                  (let s1 = emit_all ''comment:new''
                              (CommentNew tid (t_createdBy t) (t_assignees t) text req_user) (io st);
                       s2 = (if t_createdBy t \<noteq> req_user
                             then snd (createNotification accepts (t_createdBy t) ''comment:new'' (Some tid)
                                         (''New comment on your task '' @ quoted (js_str (t_title t))) s1)
                             else s1)
                   in (200, st\<lparr>task_coll := replace_task tid t' (task_coll st),
                              io := store_loop accepts req_user ''comment:new'' tid
                                      (''New comment on task '' @ quoted (js_str (t_title t)))
                                      (t_assignees t) s2\<rparr>))))"

section \<open>Runs of the server\<close>

text \<open>
  The states the socket layer can be in: from the empty state, a socket with a fresh id
  connects, an open socket closes, an open socket's handler runs, or a controller
  broadcasts or stores a notification. A handler runs to its end before the next event
  is taken.
\<close>

inductive reachable :: "server \<Rightarrow> bool" where
  r_init: "reachable init"
| r_connection:
    "reachable st \<Longrightarrow> sid \<notin> dom (sockets st) \<Longrightarrow>
     reachable (connection \<lparr>sock_id = sid, userId = uid\<rparr> st)"
| r_disconnect: "reachable st \<Longrightarrow> reachable (disconnect sid st)"
| r_task_update:
    "reachable st \<Longrightarrow> sockets st (sock_id socket) = Some (userId socket) \<Longrightarrow>
     reachable (on_task_update accepts socket data st)"
| r_task_assign:
    "reachable st \<Longrightarrow> sockets st (sock_id socket) = Some (userId socket) \<Longrightarrow>
     reachable (on_task_assign accepts socket data st)"
| r_comment_new:
    "reachable st \<Longrightarrow> sockets st (sock_id socket) = Some (userId socket) \<Longrightarrow>
     reachable (on_comment_new accepts socket data st)"
| r_emit_all: "reachable st \<Longrightarrow> reachable (emit_all ev data st)"
| r_createNotification:
    "reachable st \<Longrightarrow> reachable (snd (createNotification accepts uid type tid message st))"

text \<open>When \<open>Notification.create\<close> throws for a document.\<close>

definition rejected :: "(notif_doc \<Rightarrow> bool) \<Rightarrow> notif_doc \<Rightarrow> bool" where
  "rejected accepts doc =
     (d_taskId doc = None \<or> d_type doc \<notin> set type_enum \<or> d_message doc = [] \<or> \<not> accepts doc)"

text \<open>The fields of a stored notification other than its \<open>_id\<close>.\<close>

definition content :: "notification \<Rightarrow> user_id \<times> string \<times> task_id \<times> string \<times> bool" where
  "content n = (n_user n, n_type n, n_taskId n, n_message n, n_read n)"

section \<open>The notification store\<close>

text \<open>\<open>rejected\<close> is exactly the case in which \<open>Notification.create\<close> throws.\<close>

lemma Notification_create_Inl_iff:
  "(\<exists>e. Notification_create accepts doc st = Inl e) = rejected accepts doc"
  by (auto simp: Notification_create_def rejected_def Let_def split: option.splits)

lemma createNotification_rejected:
  "rejected accepts \<lparr>d_user = uid, d_type = ty, d_taskId = tid, d_message = m\<rparr> \<Longrightarrow>
   \<exists>e. createNotification accepts uid ty tid m st = (None, st\<lparr>errlog := errlog st @ [e]\<rparr>)"
  by (auto simp: createNotification_def Notification_create_def rejected_def Let_def split: option.splits)

lemma createNotification_stored:
  "\<not> rejected accepts \<lparr>d_user = uid, d_type = ty, d_taskId = tid, d_message = m\<rparr> \<Longrightarrow>
   createNotification accepts uid ty tid m st =
     (let n = \<lparr>n_id = next_oid st, n_user = uid, n_type = ty, n_taskId = the tid,
               n_message = m, n_read = False\<rparr>
      in (Some n, st\<lparr>notifications := notifications st @ [n], next_oid := Suc (next_oid st)\<rparr>))"
  by (auto simp: createNotification_def Notification_create_def rejected_def Let_def split: option.splits)

lemma createNotification_presence:
  "connectedUsers (snd (createNotification accepts uid ty tid m st)) = connectedUsers st"
  "sockets (snd (createNotification accepts uid ty tid m st)) = sockets st"
  "rooms (snd (createNotification accepts uid ty tid m st)) = rooms st"
  "emitted (snd (createNotification accepts uid ty tid m st)) = emitted st"
  by (auto simp: createNotification_def Notification_create_def Let_def split: option.splits)

section \<open>Push or store: one recipient, then the loops\<close>

lemma push_or_store_presence:
  "connectedUsers (push_or_store accepts ev m data uid st) = connectedUsers st"
  "sockets (push_or_store accepts ev m data uid st) = sockets st"
  "rooms (push_or_store accepts ev m data uid st) = rooms st"
  by (auto simp: push_or_store_def emit_to_def createNotification_presence split: option.splits)

lemma push_or_store_isOnline:
  "isOnline (push_or_store accepts ev m data uid st) = isOnline st"
  by (rule ext) (simp add: isOnline_def push_or_store_presence)

lemma push_or_store_emitted:
  "emitted (push_or_store accepts ev m data uid st) =
     emitted st @ (case connectedUsers st uid of
                     None \<Rightarrow> []
                   | Some sid \<Rightarrow> [\<lparr>p_target = ToRoom sid, p_event = ev, p_payload = ClientData data\<rparr>])"
  by (auto simp: push_or_store_def emit_to_def createNotification_presence split: option.splits)

lemma push_or_store_notifications:
  "map content (notifications (push_or_store accepts ev m data uid st)) =
     map content (notifications st) @
       (if connectedUsers st uid = None \<and>
           \<not> rejected accepts \<lparr>d_user = uid, d_type = ev, d_taskId = taskId data, d_message = m\<rparr>
        then [(uid, ev, the (taskId data), m, False)] else [])"
  by (auto simp: push_or_store_def emit_to_def createNotification_def Notification_create_def
        rejected_def content_def Let_def split: option.splits)

lemma push_or_store_errlog:
  "length (errlog (push_or_store accepts ev m data uid st)) =
     length (errlog st) +
       (if connectedUsers st uid = None \<and>
           rejected accepts \<lparr>d_user = uid, d_type = ev, d_taskId = taskId data, d_message = m\<rparr>
        then 1 else 0)"
  by (auto simp: push_or_store_def emit_to_def createNotification_def Notification_create_def
        rejected_def Let_def split: option.splits)

lemma task_update_loop_presence:
  "connectedUsers (task_update_loop accepts data us st) = connectedUsers st"
  "sockets (task_update_loop accepts data us st) = sockets st"
  "rooms (task_update_loop accepts data us st) = rooms st"
  by (induction us arbitrary: st) (simp_all add: push_or_store_presence)

lemma comment_new_loop_presence:
  "connectedUsers (comment_new_loop accepts socket data us st) = connectedUsers st"
  "sockets (comment_new_loop accepts socket data us st) = sockets st"
  "rooms (comment_new_loop accepts socket data us st) = rooms st"
  by (induction us arbitrary: st) (simp_all add: push_or_store_presence)

lemma task_update_loop_emitted:
  "emitted (task_update_loop accepts data us st) =
     emitted st @
       map (\<lambda>u. \<lparr>p_target = ToRoom (the (connectedUsers st u)), p_event = ''task:update'',
                 p_payload = ClientData data\<rparr>)
         (filter (isOnline st) us)"
  by (induction us arbitrary: st)
     (auto simp: push_or_store_presence push_or_store_emitted push_or_store_isOnline
        simp: isOnline_def split: option.splits)

lemma task_update_loop_notifications:
  "map content (notifications (task_update_loop accepts data us st)) =
     map content (notifications st) @
       map (\<lambda>u. (u, ''task:update'', the (taskId data), update_message data, False))
         (filter (\<lambda>u. \<not> isOnline st u \<and>
                    \<not> rejected accepts \<lparr>d_user = u, d_type = ''task:update'', d_taskId = taskId data,
                                       d_message = update_message data\<rparr>) us)"
  by (induction us arbitrary: st)
     (simp_all add: push_or_store_presence push_or_store_notifications push_or_store_isOnline,
      simp_all add: isOnline_def)

lemma task_update_loop_errlog:
  "length (errlog (task_update_loop accepts data us st)) =
     length (errlog st) +
       length (filter (\<lambda>u. \<not> isOnline st u \<and>
                    rejected accepts \<lparr>d_user = u, d_type = ''task:update'', d_taskId = taskId data,
                                       d_message = update_message data\<rparr>) us)"
  by (induction us arbitrary: st)
     (simp_all add: push_or_store_presence push_or_store_errlog push_or_store_isOnline,
      simp_all add: isOnline_def)

lemma handlers_presence:
  "connectedUsers (on_task_update accepts socket data st) = connectedUsers st"
  "sockets (on_task_update accepts socket data st) = sockets st"
  "connectedUsers (on_task_assign accepts socket data st) = connectedUsers st"
  "sockets (on_task_assign accepts socket data st) = sockets st"
  "connectedUsers (on_comment_new accepts socket data st) = connectedUsers st"
  "sockets (on_comment_new accepts socket data st) = sockets st"
  by (simp_all add: on_task_update_def on_task_assign_def on_comment_new_def
        task_update_loop_presence comment_new_loop_presence push_or_store_presence)

section \<open>The presence map\<close>

lemma connection_fields:
  "connectedUsers (connection socket st) = (connectedUsers st)(userId socket \<mapsto> sock_id socket)"
  "sockets (connection socket st) = (sockets st)(sock_id socket \<mapsto> userId socket)"
  by (simp_all add: connection_def on_connection_def open_socket_def join_def)

lemma disconnect_fields:
  "sockets st sid = Some uid \<Longrightarrow> connectedUsers (disconnect sid st) = (connectedUsers st)(uid := None)"
  "sockets st sid = Some uid \<Longrightarrow> sockets (disconnect sid st) = (sockets st)(sid := None)"
  "sockets st sid = None \<Longrightarrow> disconnect sid st = st"
  by (simp_all add: disconnect_def on_disconnect_def close_socket_def emit_all_def)

text \<open>
  In every reachable state the connection id that \<open>connectedUsers\<close> holds for a user is
  an open socket of that user.
\<close>

lemma entry_is_open_socket:
  "reachable st \<Longrightarrow> connectedUsers st v = Some s \<Longrightarrow> sockets st s = Some v"
proof (induction arbitrary: v s rule: reachable.induct)
  case r_init
  then show ?case by (simp add: init_def)
next
  case (r_connection st sid uid)
  then show ?case
    by (auto simp: connection_fields split: if_splits)
next
  case (r_disconnect st sid)
  show ?case
  proof (cases "sockets st sid")
    case None
    with r_disconnect show ?thesis by (simp add: disconnect_fields)
  next
    case (Some uid)
    with r_disconnect.prems have e: "connectedUsers st v = Some s" and ne: "v \<noteq> uid"
      by (auto simp: disconnect_fields split: if_splits)
    from r_disconnect.IH[OF e] have o: "sockets st s = Some v" .
    with Some ne have "s \<noteq> sid" by auto
    with o Some show ?thesis by (simp add: disconnect_fields)
  qed
qed (simp_all add: handlers_presence createNotification_presence emit_all_def)

text \<open>
  The \<open>disconnect\<close> handler does not compare the closing socket with the id the map
  holds: when a user has two connections and the one that is not stored closes, the
  entry of the other, still open, connection is deleted.
\<close>

lemma close_of_unstored_socket_deletes_entry:
  assumes "s1 \<noteq> s2"
  shows "(let b = connection \<lparr>sock_id = s2, userId = u\<rparr> (connection \<lparr>sock_id = s1, userId = u\<rparr> st);
              c = disconnect s1 b
          in connectedUsers b u = Some s2 \<and> connectedUsers c u = None \<and> sockets c s2 = Some u)"
proof -
  let ?b = "connection \<lparr>sock_id = s2, userId = u\<rparr> (connection \<lparr>sock_id = s1, userId = u\<rparr> st)"
  have b1: "sockets ?b s1 = Some u" and b2: "sockets ?b s2 = Some u"
    using assms by (simp_all add: connection_fields)
  have "sockets (disconnect s1 ?b) s2 = Some u"
    using assms b2 by (simp add: disconnect_fields(2)[OF b1])
  moreover have "connectedUsers (disconnect s1 ?b) u = None"
    by (simp add: disconnect_fields(1)[OF b1])
  moreover have "connectedUsers ?b u = Some s2"
    by (simp add: connection_fields)
  ultimately show ?thesis by (simp add: Let_def)
qed

text \<open>
  C3 at a concrete run. \<open>u\<close> registers two connections, \<open>s1\<close> and then \<open>s2\<close>; the map
  holds \<open>s2\<close>. When \<open>s1\<close> closes, \<open>connectedUsers.delete(socket.userId)\<close> removes
  the entry although \<open>s2\<close> is open and a member of \<open>user:u\<close>: \<open>isOnline\<close> is false
  where the specification asks for true, so an identity with an open connection has no
  presence entry. A \<open>task:assign\<close> for \<open>u\<close> is then stored as a notification for an
  offline user and nothing is pushed. After \<open>s2\<close> closes too, \<open>u\<close> is offline with no
  open connection, as specified.
\<close>

theorem open_connection_reported_offline:
  "(let b = connection \<lparr>sock_id = ''s2'', userId = ''u''\<rparr>
              (connection \<lparr>sock_id = ''s1'', userId = ''u''\<rparr>
                 (connection \<lparr>sock_id = ''s3'', userId = ''v''\<rparr> init));
        c = disconnect ''s1'' b;
        d = disconnect ''s2'' c;
        data = \<lparr>taskId = Some ''t1'', assignees = [''u''], assigneeId = ''u'',
                taskCreator = ''v'', task_title = Some ''T''\<rparr>;
        c' = on_task_assign (\<lambda>_. True) \<lparr>sock_id = ''s3'', userId = ''v''\<rparr> data c
    in isOnline b ''u'' \<and> connectedUsers b ''u'' = Some ''s2''
     \<and> sockets c ''s1'' = None \<and> sockets c ''s2'' = Some ''u'' \<and> ''s2'' \<in> rooms c (room_of ''u'')
     \<and> \<not> isOnline c ''u'' \<and> connectedUsers c ''u'' = None
     \<and> emitted c' = emitted c
     \<and> map content (notifications c') =
          [(''u'', ''task:assign'', ''t1'', ''You have been assigned to task '' @ quoted ''T'', False)]
     \<and> \<not> isOnline d ''u'' \<and> sockets d ''s2'' = None)"
  by (simp add: Let_def isOnline_def on_task_assign_def push_or_store_def
        createNotification_def Notification_create_def type_enum_def content_def quoted_def
        title_or_unknown_def assign_message_def room_of_def
        disconnect_def on_disconnect_def close_socket_def emit_all_def emit_to_def
        connection_def on_connection_def open_socket_def join_def init_def)

text \<open>
  C8: registering is idempotent. Running the \<open>connection\<close> handler a second time for
  the same socket (same identity, same connection id) leaves the state exactly as the
  first run left it, also together with what socket.io does on the event; the registry
  then holds that one connection id for the identity, once.
\<close>

theorem register_idempotent:
  "on_connection socket (on_connection socket st) = on_connection socket st
   \<and> connection socket (connection socket st) = connection socket st
   \<and> connectionsFor (on_connection socket st) (userId socket) = [sock_id socket]"
  by (simp add: connection_def on_connection_def open_socket_def join_def connectionsFor_def)

text \<open>An accepted token registers the connection.\<close>

lemma connect_registers:
  "t \<noteq> [] \<Longrightarrow> verify t = Some uid \<Longrightarrow>
   connect verify (Some t) sid st =
     (Registered \<lparr>sock_id = sid, userId = uid\<rparr>, connection \<lparr>sock_id = sid, userId = uid\<rparr> st)
   \<and> isOnline (snd (connect verify (Some t) sid st)) uid
   \<and> sid \<in> rooms (snd (connect verify (Some t) sid st)) (room_of uid)"
  by (simp add: connect_def io_use_def connection_def on_connection_def open_socket_def join_def
        isOnline_def)

text \<open>
  C6: a connection attempt whose token is absent, empty, or not accepted by
  \<open>jwt.verify\<close> (malformed, wrong signature) is rejected with the generic error and the
  state is what it was: no entry in \<open>connectedUsers\<close>, no room joined, no open socket.
  The \<open>connection\<close> handler, the only code that registers, is not run.
\<close>

theorem failed_authentication_registers_nothing:
  assumes "token = None \<or> token = Some [] \<or> (\<exists>t. token = Some t \<and> verify t = None)"
  shows "connect verify token sid st = (Rejected ''Authentication error'', st)"
  using assms by (auto simp: connect_def io_use_def split: option.splits)

theorem failed_authentication_registers_nothing_witness:
  "connect (\<lambda>t. if t = ''good'' then Some ''u1'' else None) (Some ''forged'') ''s9'' init
     = (Rejected ''Authentication error'', init)
   \<and> connect (\<lambda>t. if t = ''good'' then Some ''u1'' else None) None ''s9'' init
     = (Rejected ''Authentication error'', init)"
  using failed_authentication_registers_nothing
          [of "Some ''forged''" "\<lambda>t. if t = ''good'' then Some ''u1'' else None" "''s9''" init]
        failed_authentication_registers_nothing
          [of None "\<lambda>t. if t = ''good'' then Some ''u1'' else None" "''s9''" init]
  by simp

text \<open>
  C7: the \<open>task:update\<close> handler returns a state for every store, and what each
  recipient gets depends on that recipient alone. Every online recipient gets its push,
  every offline recipient whose write the store takes gets its record, and every offline
  recipient whose write fails adds one line to the error log and nothing else: the
  failure is caught inside \<open>createNotification\<close> and the loop goes on.
\<close>

theorem fallback_failure_not_propagated:
  "(let st' = on_task_update accepts socket data st;
        doc = (\<lambda>u. \<lparr>d_user = u, d_type = ''task:update'', d_taskId = taskId data,
                      d_message = update_message data\<rparr>)
    in emitted st' =
         emitted st @
           map (\<lambda>u. \<lparr>p_target = ToRoom (the (connectedUsers st u)), p_event = ''task:update'',
                     p_payload = ClientData data\<rparr>)
             (filter (isOnline st) (assignees data))
     \<and> map content (notifications st') =
         map content (notifications st) @
           map (\<lambda>u. (u, ''task:update'', the (taskId data), update_message data, False))
             (filter (\<lambda>u. \<not> isOnline st u \<and> \<not> rejected accepts (doc u)) (assignees data))
     \<and> length (errlog st') =
         length (errlog st) +
           length (filter (\<lambda>u. \<not> isOnline st u \<and> rejected accepts (doc u)) (assignees data))
     \<and> connectedUsers st' = connectedUsers st)"
  unfolding Let_def on_task_update_def
  using task_update_loop_emitted[of accepts data "assignees data" st]
        task_update_loop_notifications[of accepts data "assignees data" st]
        task_update_loop_errlog[of accepts data "assignees data" st]
        task_update_loop_presence(1)[of accepts data "assignees data" st]
  by simp

theorem fallback_failure_not_propagated_witness:
  "(let st = connection \<lparr>sock_id = ''sa'', userId = ''a''\<rparr> init;
        data = \<lparr>taskId = Some ''t1'', assignees = [''b'', ''a'', ''c''], assigneeId = ''a'',
                taskCreator = ''a'', task_title = Some ''T''\<rparr>;
        accepts = (\<lambda>d. d_user d \<noteq> ''b'');
        st' = on_task_update accepts \<lparr>sock_id = ''sa'', userId = ''a''\<rparr> data st
    in rejected accepts \<lparr>d_user = ''b'', d_type = ''task:update'', d_taskId = Some ''t1'',
                         d_message = update_message data\<rparr>
     \<and> emitted st' = [\<lparr>p_target = ToRoom ''sa'', p_event = ''task:update'',
                        p_payload = ClientData data\<rparr>]
     \<and> map content (notifications st') =
          [(''c'', ''task:update'', ''t1'', ''Task '' @ quoted ''T'' @ '' has been updated'', False)]
     \<and> length (errlog st') = 1)"
  using fallback_failure_not_propagated
          [of "\<lambda>d. d_user d \<noteq> ''b''" "\<lparr>sock_id = ''sa'', userId = ''a''\<rparr>"
              "\<lparr>taskId = Some ''t1'', assignees = [''b'', ''a'', ''c''], assigneeId = ''a'',
                taskCreator = ''a'', task_title = Some ''T''\<rparr>"
              "connection \<lparr>sock_id = ''sa'', userId = ''a''\<rparr> init"]
  by (simp add: Let_def isOnline_def connection_fields rejected_def type_enum_def
        update_message_def title_or_unknown_def quoted_def init_def
        connection_def on_connection_def open_socket_def join_def)

text \<open>
  C10: \<open>markAsRead\<close> and \<open>deleteReadNotifications\<close> change the requester's records
  only. Whatever ids are supplied, the notifications of every other user are the same
  list as before; \<open>markAsRead\<close> keeps every position and changes a record at most by
  setting \<open>read\<close> on one that belongs to the requester; \<open>deleteReadNotifications\<close>
  removes only records that belong to the requester and are read.
\<close>

theorem notification_mutations_touch_own_only:
  "filter (\<lambda>n. n_user n \<noteq> u) (snd (markAsRead db_ok u ids ns)) = filter (\<lambda>n. n_user n \<noteq> u) ns
   \<and> length (snd (markAsRead db_ok u ids ns)) = length ns
   \<and> (\<forall>i < length ns.
        snd (markAsRead db_ok u ids ns) ! i = ns ! i
        \<or> (n_user (ns ! i) = u \<and> snd (markAsRead db_ok u ids ns) ! i = (ns ! i)\<lparr>n_read := True\<rparr>))
   \<and> filter (\<lambda>n. n_user n \<noteq> u) (snd (deleteReadNotifications db_ok u ns))
        = filter (\<lambda>n. n_user n \<noteq> u) ns
   \<and> set (snd (deleteReadNotifications db_ok u ns)) \<subseteq> set ns
   \<and> (\<forall>n \<in> set ns. n \<notin> set (snd (deleteReadNotifications db_ok u ns)) \<longrightarrow> n_user n = u \<and> n_read n)"
proof -
  have m1: "filter (\<lambda>n. n_user n \<noteq> u) (snd (markAsRead db_ok u ids ns)) = filter (\<lambda>n. n_user n \<noteq> u) ns"
    by (induction ns) (auto simp: markAsRead_def split: option.splits)
  have m2: "length (snd (markAsRead db_ok u ids ns)) = length ns"
    by (simp add: markAsRead_def split: option.splits)
  have m3: "\<forall>i < length ns.
        snd (markAsRead db_ok u ids ns) ! i = ns ! i
        \<or> (n_user (ns ! i) = u \<and> snd (markAsRead db_ok u ids ns) ! i = (ns ! i)\<lparr>n_read := True\<rparr>)"
    by (simp add: markAsRead_def split: option.splits)
  have d1: "filter (\<lambda>n. n_user n \<noteq> u) (snd (deleteReadNotifications db_ok u ns))
        = filter (\<lambda>n. n_user n \<noteq> u) ns"
    by (induction ns) (auto simp: deleteReadNotifications_def)
  have d2: "set (snd (deleteReadNotifications db_ok u ns)) \<subseteq> set ns"
    by (auto simp: deleteReadNotifications_def)
  have d3: "\<forall>n \<in> set ns. n \<notin> set (snd (deleteReadNotifications db_ok u ns)) \<longrightarrow> n_user n = u \<and> n_read n"
    by (auto simp: deleteReadNotifications_def)
  from m1 m2 m3 d1 d2 d3 show ?thesis by blast
qed

theorem notification_mutations_touch_own_only_witness:
  "(let mine = \<lparr>n_id = 0, n_user = ''u1'', n_type = ''task:update'', n_taskId = ''t1'',
                 n_message = ''m'', n_read = False\<rparr>;
        other = \<lparr>n_id = 1, n_user = ''u2'', n_type = ''task:update'', n_taskId = ''t1'',
                  n_message = ''m'', n_read = False\<rparr>;
        other_read = \<lparr>n_id = 2, n_user = ''u2'', n_type = ''task:assign'', n_taskId = ''t1'',
                       n_message = ''m'', n_read = True\<rparr>;
        ns = [mine, other, other_read]
    in (1::nat) < length ns \<and> other_read \<in> set ns
     \<and> snd (markAsRead True ''u1'' (Some [0, 1]) ns) = [mine\<lparr>n_read := True\<rparr>, other, other_read]
     \<and> snd (deleteReadNotifications True ''u1'' [mine\<lparr>n_read := True\<rparr>, other, other_read])
          = [other, other_read])"
  using notification_mutations_touch_own_only [of "''u1''" True "Some [0, 1]"
          "[\<lparr>n_id = 0, n_user = ''u1'', n_type = ''task:update'', n_taskId = ''t1'',
              n_message = ''m'', n_read = False\<rparr>,
            \<lparr>n_id = 1, n_user = ''u2'', n_type = ''task:update'', n_taskId = ''t1'',
              n_message = ''m'', n_read = False\<rparr>,
            \<lparr>n_id = 2, n_user = ''u2'', n_type = ''task:assign'', n_taskId = ''t1'',
              n_message = ''m'', n_read = True\<rparr>]"]
  by (simp add: Let_def markAsRead_def deleteReadNotifications_def)

section \<open>The comment handler and the controllers' loop\<close>

text \<open>
  The \<open>comment:new\<close> loop treats every element of its list that is not
  \<open>socket.userId\<close>, one after the other, as often as it occurs.
\<close>

lemma comment_new_loop_emitted:
  "emitted (comment_new_loop accepts socket data us st) =
     emitted st @
       map (\<lambda>u. \<lparr>p_target = ToRoom (the (connectedUsers st u)), p_event = ''comment:new'',
                 p_payload = ClientData data\<rparr>)
         (filter (\<lambda>u. u \<noteq> userId socket \<and> isOnline st u) us)"
  by (induction us arbitrary: st)
     (auto simp: push_or_store_presence push_or_store_emitted push_or_store_isOnline
        simp: isOnline_def split: option.splits)

lemma comment_new_loop_notifications:
  "map content (notifications (comment_new_loop accepts socket data us st)) =
     map content (notifications st) @
       map (\<lambda>u. (u, ''comment:new'', the (taskId data), comment_message data, False))
         (filter (\<lambda>u. u \<noteq> userId socket \<and> \<not> isOnline st u \<and>
                    \<not> rejected accepts \<lparr>d_user = u, d_type = ''comment:new'', d_taskId = taskId data,
                                       d_message = comment_message data\<rparr>) us)"
  by (induction us arbitrary: st)
     (simp_all add: push_or_store_presence push_or_store_notifications push_or_store_isOnline,
      simp_all add: isOnline_def)

text \<open>
  The loop at the end of a controller stores a notification for every element of its
  list other than the requester, whether or not that user is in \<open>connectedUsers\<close>.
\<close>

lemma store_loop_io:
  "emitted (store_loop accepts me ty tid m us st) = emitted st"
  "connectedUsers (store_loop accepts me ty tid m us st) = connectedUsers st"
  by (induction us arbitrary: st) (simp_all add: createNotification_presence)

lemma createNotification_content:
  "map content (notifications (snd (createNotification accepts u ty tid m st))) =
     map content (notifications st) @
       (if rejected accepts \<lparr>d_user = u, d_type = ty, d_taskId = tid, d_message = m\<rparr> then []
        else [(u, ty, the tid, m, False)])"
  by (auto simp: createNotification_def Notification_create_def rejected_def content_def Let_def
        split: option.splits)

lemma store_loop_notifications:
  "map content (notifications (store_loop accepts me ty tid m us st)) =
     map content (notifications st) @
       map (\<lambda>u. (u, ty, tid, m, False))
         (filter (\<lambda>u. u \<noteq> me \<and>
                   \<not> rejected accepts \<lparr>d_user = u, d_type = ty, d_taskId = Some tid, d_message = m\<rparr>) us)"
  by (induction us arbitrary: st) (simp_all add: createNotification_content)

text \<open>
  C1 at a concrete request. \<open>u2\<close> is connected (online) when \<open>u1\<close> creates a task
  assigned to \<open>u2\<close>. \<open>createTask\<close> broadcasts \<open>task:assign\<close> to every open socket,
  so the push reaches \<open>u2\<close>'s connection, and its loop, commented
  \<open>// Store notifications for offline users\<close>, also stores a notification for \<open>u2\<close>:
  an online recipient gets both. The socket handlers choose between the two
  (\<open>push_or_store_emitted\<close>, \<open>push_or_store_notifications\<close>).
\<close>

theorem createTask_stores_for_online_assignee:
  "(let st0 = \<lparr>io = connection \<lparr>sock_id = ''s2'', userId = ''u2''\<rparr> init, task_coll = []\<rparr>;
        r = createTask \<lparr>validates = (\<lambda>_. True), immutable_createdBy = False\<rparr> (\<lambda>_. True) ''t1'' ''u1''
              \<lparr>b_title = Some ''T'', b_description = None, b_priority = None,
                b_dueDate = None, b_assignees = Some [''u2'']\<rparr> st0;
        p = \<lparr>p_target = ToAll, p_event = ''task:assign'', p_payload = TaskAssign ''t1'' ''u1''\<rparr>
    in isOnline (io st0) ''u2'' \<and> fst r = 201
     \<and> emitted (io (snd r)) = [p] \<and> receivers (io (snd r)) p = {''s2''}
     \<and> map content (notifications (io (snd r))) =
          [(''u2'', ''task:assign'', ''t1'', ''You have been assigned to task '' @ quoted ''T'', False)])"
  by (simp add: Let_def createTask_def createNotification_def Notification_create_def
        type_enum_def emit_all_def receivers_def isOnline_def content_def quoted_def js_str_def
        spread_new_Set_def set_add_def
        connection_def on_connection_def open_socket_def join_def init_def)

text \<open>
  C2 at a concrete event. The socket of \<open>u1\<close> sends \<open>task:assign\<close> and \<open>task:update\<close>
  naming \<open>u1\<close> itself as the recipient. With \<open>u1\<close> in \<open>connectedUsers\<close> each handler
  pushes the event to \<open>u1\<close>'s own connection; with \<open>u1\<close>'s entry deleted (another of
  its sockets has closed) each handler stores a notification for \<open>u1\<close>. The
  \<open>comment:new\<close> handler, on the same data, skips \<open>socket.userId\<close> and does neither.
\<close>

theorem actor_is_notified_by_task_handlers:
  "(let socket = \<lparr>sock_id = ''s1'', userId = ''u1''\<rparr>;
        data = \<lparr>taskId = Some ''t1'', assignees = [''u1''], assigneeId = ''u1'',
                taskCreator = ''u1'', task_title = Some ''T''\<rparr>;
        on = connection socket init;
        off = disconnect ''s0'' (connection socket (connection \<lparr>sock_id = ''s0'', userId = ''u1''\<rparr> init))
    in isOnline on ''u1''
     \<and> emitted (on_task_assign (\<lambda>_. True) socket data on) =
          [\<lparr>p_target = ToRoom ''s1'', p_event = ''task:assign'', p_payload = ClientData data\<rparr>]
     \<and> emitted (on_task_update (\<lambda>_. True) socket data on) =
          [\<lparr>p_target = ToRoom ''s1'', p_event = ''task:update'', p_payload = ClientData data\<rparr>]
     \<and> rooms on ''s1'' = {''s1''}
     \<and> emitted (on_comment_new (\<lambda>_. True) socket data on) = []
     \<and> \<not> isOnline off ''u1'' \<and> sockets off ''s1'' = Some ''u1''
     \<and> map content (notifications (on_task_assign (\<lambda>_. True) socket data off)) =
          [(''u1'', ''task:assign'', ''t1'', ''You have been assigned to task '' @ quoted ''T'', False)]
     \<and> map content (notifications (on_task_update (\<lambda>_. True) socket data off)) =
          [(''u1'', ''task:update'', ''t1'', ''Task '' @ quoted ''T'' @ '' has been updated'', False)]
     \<and> notifications (on_comment_new (\<lambda>_. True) socket data off) = [])"
  by (simp add: Let_def on_task_assign_def on_task_update_def on_comment_new_def push_or_store_def
        createNotification_def Notification_create_def type_enum_def emit_to_def emit_all_def
        isOnline_def content_def quoted_def title_or_unknown_def
        assign_message_def update_message_def comment_message_def
        disconnect_def on_disconnect_def close_socket_def
        connection_def on_connection_def open_socket_def join_def init_def)

text \<open>
  C4 at a concrete event. \<open>u\<close> has two open connections \<open>s1\<close> and \<open>s2\<close>, both
  members of the room \<open>user:u\<close> they joined on connection. The push for \<open>u\<close> is
  addressed to the room named by the connection id that \<open>connectedUsers\<close> holds,
  \<open>s2\<close>, not to \<open>user:u\<close>: it reaches \<open>s2\<close> alone and \<open>s1\<close> gets nothing.
\<close>

theorem push_goes_to_one_connection:
  "(let st = connection \<lparr>sock_id = ''s2'', userId = ''u''\<rparr>
               (connection \<lparr>sock_id = ''s1'', userId = ''u''\<rparr> init);
        data = \<lparr>taskId = Some ''t1'', assignees = [''u''], assigneeId = ''u'',
                taskCreator = ''v'', task_title = Some ''T''\<rparr>;
        p = \<lparr>p_target = ToRoom ''s2'', p_event = ''task:assign'', p_payload = ClientData data\<rparr>;
        st' = on_task_assign (\<lambda>_. True) \<lparr>sock_id = ''s2'', userId = ''u''\<rparr> data st
    in sockets st ''s1'' = Some ''u'' \<and> sockets st ''s2'' = Some ''u''
     \<and> rooms st (room_of ''u'') = {''s1'', ''s2''}
     \<and> emitted st' = [p]
     \<and> receivers st' p = {''s2''}
     \<and> ''s1'' \<notin> receivers st' p)"
  by (auto simp: Let_def on_task_assign_def push_or_store_def emit_to_def receivers_def room_of_def
        connection_def on_connection_def open_socket_def join_def init_def)

text \<open>
  C5 at a concrete event. The task's creator \<open>u2\<close> is also among its assignees (as
  \<open>createTask\<close> arranges) and \<open>u3\<close> comments. The \<open>comment:new\<close> handler walks
  \<open>[taskCreator, ...assignees]\<close>, in which \<open>u2\<close> occurs twice, and skips only the
  commenter: \<open>u2\<close> offline gets two notifications, \<open>u2\<close> online gets two pushes.
  \<open>addComment\<close> does the same with its two steps, the creator and then the
  assignees: it stores two \<open>comment:new\<close> notifications for \<open>u2\<close>.
\<close>

theorem comment_recipient_notified_twice:
  "(let data = \<lparr>taskId = Some ''t1'', assignees = [''u2'', ''u3''], assigneeId = ''u3'',
                taskCreator = ''u2'', task_title = Some ''T''\<rparr>;
        commenter = \<lparr>sock_id = ''s3'', userId = ''u3''\<rparr>;
        off = connection commenter init;
        on = connection \<lparr>sock_id = ''s2'', userId = ''u2''\<rparr> off;
        p = \<lparr>p_target = ToRoom ''s2'', p_event = ''comment:new'', p_payload = ClientData data\<rparr>;
        model = \<lparr>validates = (\<lambda>_. True), immutable_createdBy = False\<rparr>;
        a1 = snd (createTask model (\<lambda>_. True) ''t1'' ''u2''
                    \<lparr>b_title = Some ''T'', b_description = None, b_priority = None,
                      b_dueDate = None, b_assignees = Some [''u3'']\<rparr>
                    \<lparr>io = init, task_coll = []\<rparr>);
        r = addComment model (\<lambda>_. True) ''u3'' ''t1'' ''hello'' a1
    in map n_user (notifications (on_comment_new (\<lambda>_. True) commenter data off)) = [''u2'', ''u2'']
     \<and> emitted (on_comment_new (\<lambda>_. True) commenter data on) = [p, p]
     \<and> map (\<lambda>t. (t_createdBy t, t_assignees t)) (task_coll a1) = [(''u2'', [''u3'', ''u2''])]
     \<and> map n_user (notifications (io a1)) = [''u3'']
     \<and> fst r = 200
     \<and> map content (notifications (io (snd r))) =
          [(''u3'', ''task:assign'', ''t1'', ''You have been assigned to task '' @ quoted ''T'', False),
           (''u2'', ''comment:new'', ''t1'', ''New comment on your task '' @ quoted ''T'', False),
           (''u2'', ''comment:new'', ''t1'', ''New comment on task '' @ quoted ''T'', False)])"
  by (simp add: Let_def on_comment_new_def push_or_store_def
        createTask_def addComment_def findById_def spread_new_Set_def set_add_def
        createNotification_def Notification_create_def type_enum_def emit_to_def emit_all_def
        content_def quoted_def title_or_unknown_def js_str_def comment_message_def
        connection_def on_connection_def open_socket_def join_def init_def)

section \<open>The creator among the assignees\<close>

lemma set_foldl_set_add: "set (foldl set_add s xs) = set s \<union> set xs"
  by (induction xs arbitrary: s) (auto simp: set_add_def)

lemma set_spread_new_Set: "set (spread_new_Set xs) = set xs"
  by (simp add: spread_new_Set_def set_foldl_set_add)

text \<open>
  A successful \<open>createTask\<close> stores a task whose creator is the requester and is
  among its assignees.
\<close>

lemma createTask_creator_in_assignees:
  assumes "createTask model accepts new_id req_user body st = (201, st')"
  shows "\<exists>t. task_coll st' = task_coll st @ [t] \<and> t_id t = new_id \<and> t_createdBy t = req_user
             \<and> req_user \<in> set (t_assignees t)"
proof -
  have "req_user \<in> id_str ` set (spread_new_Set (map IdStr as @ [IdObj req_user]))" for as
    unfolding set_spread_new_Set by force
  with assms show ?thesis
    by (auto simp: createTask_def Let_def split: option.splits if_splits)
qed

lemma findById_replace_task:
  "findById tid ts = Some t \<Longrightarrow> t_id t' = tid \<Longrightarrow> findById tid (replace_task tid t' ts) = Some t'"
  by (induction ts) (auto simp: findById_def)

text \<open>
  A successful \<open>updateTask\<close> that supplies \<open>assignees\<close> keeps the creator among the
  assignees when the creator itself stays: the schema declares \<open>createdBy\<close> immutable,
  or the body does not name \<open>createdBy\<close>.
\<close>

lemma updateTask_creator_in_assignees:
  assumes "updateTask model accepts req_user tid body st = (200, st')"
    and "u_assignees body = Some as"
    and "immutable_createdBy model \<or> u_createdBy body = None"
  shows "\<exists>t t'. findById tid (task_coll st) = Some t \<and> findById tid (task_coll st') = Some t'
             \<and> t_createdBy t' = t_createdBy t \<and> t_createdBy t' \<in> set (t_assignees t')"
proof -
  from assms(1) obtain t where f: "findById tid (task_coll st) = Some t"
    by (auto simp: updateTask_def split: option.splits)
  have tid: "t_id t = tid"
    using f by (auto simp: findById_def dest: find_Some_iff[THEN iffD1])
  define t' where "t' = apply_update model
      (body\<lparr>u_assignees := Some (map id_str (spread_new_Set (map IdStr as @ [IdObj (t_createdBy t)])))\<rparr>) t"
  have c: "t_createdBy t' = t_createdBy t"
    using assms(3) by (auto simp: t'_def apply_update_def split: option.splits)
  have m: "t_createdBy t \<in> set (t_assignees t')"
    unfolding t'_def apply_update_def by (simp add: set_spread_new_Set)
  have i: "t_id t' = tid"
    using tid by (simp add: t'_def apply_update_def)
  have "task_coll st' = replace_task tid t' (task_coll st)"
    using assms(1,2) f by (auto simp: updateTask_def Let_def t'_def split: if_splits)
  with f i have "findById tid (task_coll st') = Some t'"
    by (simp add: findById_replace_task)
  with f c m show ?thesis by auto
qed

text \<open>
  C9 at a concrete request. Task \<open>t1\<close> is created by \<open>u1\<close> for \<open>u2\<close>. The assignee
  \<open>u2\<close> then sends an update whose body names both \<open>assignees\<close> and \<open>createdBy\<close>.
  The controller adds the old creator \<open>u1\<close> to the list and hands the whole body to
  \<open>findByIdAndUpdate\<close>; with \<open>createdBy\<close> an ordinary path of the schema the task's
  creator is \<open>u3\<close> afterwards, who is not among its assignees. The call answers 200.
\<close>

theorem updateTask_can_replace_creator:
  "(let model = \<lparr>validates = (\<lambda>_. True), immutable_createdBy = False\<rparr>;
        st1 = snd (createTask model (\<lambda>_. True) ''t1'' ''u1''
                     \<lparr>b_title = Some ''T'', b_description = None, b_priority = None,
                       b_dueDate = None, b_assignees = Some [''u2'']\<rparr>
                     \<lparr>io = init, task_coll = []\<rparr>);
        r = updateTask model (\<lambda>_. True) ''u2'' ''t1''
              \<lparr>u_title = None, u_description = None, u_status = None, u_priority = None,
                u_dueDate = None, u_assignees = Some [''u2''], u_createdBy = Some ''u3''\<rparr> st1
    in map (\<lambda>t. (t_id t, t_createdBy t, t_assignees t)) (task_coll st1) = [(''t1'', ''u1'', [''u2'', ''u1''])]
     \<and> fst r = 200
     \<and> map (\<lambda>t. (t_id t, t_createdBy t, t_assignees t)) (task_coll (snd r)) = [(''t1'', ''u3'', [''u2'', ''u1''])]
     \<and> ''u3'' \<notin> set [''u2'', ''u1''])"
  by (simp add: Let_def createTask_def updateTask_def apply_update_def findById_def
        spread_new_Set_def set_add_def)

end
